theory Spec2Isabelle
  imports Complex_Main "HOL-Library.Multiset"
begin

section \<open>Python values, exceptions and results\<close>

text \<open>
  The values \<open>response.json()\<close> can produce, which are also the values the lookup
  methods return: \<open>PNone\<close> is Python's \<open>None\<close> (the absent sentinel, and what a decoded
  JSON \<open>null\<close> is). A decoded JSON object is a dict with string keys, kept as an
  association list in insertion order; its keys are distinct.
\<close>

datatype pyval =
    PNone
  | PBool bool
  | PInt int
  | PFloat rat
  | PStr string
  | PList "pyval list"
  | PDict "(string \<times> pyval) list"

text \<open>
  The exceptions that occur: the three the lookups catch, the one \<open>response.json()\<close>
  raises on a body that is not JSON, the transport's own (connection errors, timeouts),
  and the \<open>ValueError\<close> of \<open>max\<close> on an empty sequence. A computation that may raise
  has the type \<open>exn + 'a\<close>, with \<open>Inl\<close> for the raised exception.
\<close>

datatype exn = KeyError | IndexError | TypeError | JSONDecodeError | RequestException | ValueError

definition and_then :: "exn + 'a \<Rightarrow> ('a \<Rightarrow> exn + 'b) \<Rightarrow> exn + 'b" where
  "and_then r f = (case r of Inl e \<Rightarrow> Inl e | Inr v \<Rightarrow> f v)"

text \<open>\<open>obj[key]\<close> with a string key: only a dict accepts it.\<close>

fun getitem_str :: "pyval \<Rightarrow> string \<Rightarrow> exn + pyval" where
  "getitem_str (PDict d) k = (case map_of d k of None \<Rightarrow> Inl KeyError | Some v \<Rightarrow> Inr v)"
| "getitem_str _ k = Inl TypeError"

text \<open>
  \<open>obj[i]\<close> with an integer: a list and a string are indexed (a negative index counts
  from the end), a dict of string keys has no integer key, anything else is not
  subscriptable.
\<close>

definition index_of :: "nat \<Rightarrow> int \<Rightarrow> nat option" where
  "index_of n i =
     (let j = (if i < 0 then int n + i else i)
      in if 0 \<le> j \<and> j < int n then Some (nat j) else None)"

fun getitem_int :: "pyval \<Rightarrow> int \<Rightarrow> exn + pyval" where
  "getitem_int (PList xs) i =
     (case index_of (length xs) i of None \<Rightarrow> Inl IndexError | Some j \<Rightarrow> Inr (xs ! j))"
| "getitem_int (PStr s) i =
     (case index_of (length s) i of None \<Rightarrow> Inl IndexError | Some j \<Rightarrow> Inr (PStr [s ! j]))"
| "getitem_int (PDict d) i = Inl KeyError"
| "getitem_int _ i = Inl TypeError"

text \<open>\<open>for genre in obj\<close>: the elements of a list, the keys of a dict, the characters
  of a string; anything else is not iterable.\<close>

fun iterate :: "pyval \<Rightarrow> exn + pyval list" where
  "iterate (PList xs) = Inr xs"
| "iterate (PDict d) = Inr (map (\<lambda>(k, v). PStr k) d)"
| "iterate (PStr s) = Inr (map (\<lambda>c. PStr [c]) s)"
| "iterate _ = Inl TypeError"

text \<open>The list comprehension \<open>[f(x) for x in xs]\<close>: the first exception ends it.\<close>

fun comprehension :: "(pyval \<Rightarrow> exn + pyval) \<Rightarrow> pyval list \<Rightarrow> exn + pyval list" where
  "comprehension f [] = Inr []"
| "comprehension f (x # xs) =
     (case f x of
        Inl e \<Rightarrow> Inl e
      | Inr y \<Rightarrow> (case comprehension f xs of Inl e \<Rightarrow> Inl e | Inr ys \<Rightarrow> Inr (y # ys)))"

text \<open>\<open>sep.join(items)\<close>: every item must be a string.\<close>

fun as_strs :: "pyval list \<Rightarrow> string list option" where
  "as_strs [] = Some []"
| "as_strs (PStr s # xs) = (case as_strs xs of None \<Rightarrow> None | Some ss \<Rightarrow> Some (s # ss))"
| "as_strs (_ # xs) = None"

fun join_strs :: "string \<Rightarrow> string list \<Rightarrow> string" where
  "join_strs sep [] = []"
| "join_strs sep [s] = s"
| "join_strs sep (s # t # ss) = s @ sep @ join_strs sep (t # ss)"

definition str_join :: "string \<Rightarrow> pyval list \<Rightarrow> exn + pyval" where
  "str_join sep items =
     (case as_strs items of None \<Rightarrow> Inl TypeError | Some ss \<Rightarrow> Inr (PStr (join_strs sep ss)))"

text \<open>\<open>except (KeyError, IndexError, TypeError): return None\<close> around a \<open>return\<close>.\<close>

definition except_return_None :: "exn + pyval \<Rightarrow> exn + pyval" where
  "except_return_None r =
     (case r of
        Inl e \<Rightarrow> (if e = KeyError \<or> e = IndexError \<or> e = TypeError then Inr PNone else Inl e)
      | Inr v \<Rightarrow> Inr v)"

section \<open>The transport\<close>

text \<open>
  The two URL shapes of \<open>anime_query.py\<close>. The f-strings are kept structured: the
  constructor stands for the fixed text, its argument is the interpolated value.
  \<open>SearchUrl name\<close> is \<open>https://api.myanimelist.net/v2/anime?q={name}&limit=1\<close>,
  \<open>DetailUrl anime_id\<close> is \<open>https://api.myanimelist.net/v2/anime/{anime_id}?fields=genres\<close>.
\<close>

datatype url = SearchUrl string | DetailUrl pyval

record request =
  req_url :: url
  req_headers :: "(string \<times> string) list"

text \<open>
  A response: its status and what \<open>response.json()\<close> gives, \<open>None\<close> when the body
  is not JSON and the call raises.
\<close>

record response =
  status_code :: int
  body :: "pyval option"

definition json :: "response \<Rightarrow> exn + pyval" where
  "json r = (case body r of None \<Rightarrow> Inl JSONDecodeError | Some v \<Rightarrow> Inr v)"

text \<open>
  \<open>requests.get\<close> is outside the repository: the transport is a parameter, a function
  of the requests sent before and the request made, which raises or answers.
\<close>

type_synonym transport = "request list \<Rightarrow> request \<Rightarrow> exn + response"

section \<open>The catalog query client\<close>

record AnimeDetailsQuery =
  headers :: "(string \<times> string) list"

text \<open>The state a call runs in: the client object and the requests sent so far.\<close>

record world =
  self :: AnimeDetailsQuery
  sent :: "request list"

definition init :: "string \<Rightarrow> AnimeDetailsQuery" where
  "init client_id = \<lparr>headers = [(''X-MAL-CLIENT-ID'', client_id)]\<rparr>"

definition requests_get :: "transport \<Rightarrow> url \<Rightarrow> (string \<times> string) list \<Rightarrow> world
    \<Rightarrow> (exn + response) \<times> world" where
  "requests_get t u h w =
     (let rq = \<lparr>req_url = u, req_headers = h\<rparr>
      in (t (sent w) rq, w\<lparr>sent := sent w @ [rq]\<rparr>))"

definition get_anime_id :: "transport \<Rightarrow> string \<Rightarrow> world \<Rightarrow> (exn + pyval) \<times> world" where
  "get_anime_id t name w =
     (case requests_get t (SearchUrl name) (headers (self w)) w of
        (Inl e, w') \<Rightarrow> (Inl e, w')
      | (Inr response, w') \<Rightarrow>
          if status_code response = 200 then
            (except_return_None
               (and_then (json response) (\<lambda>j.
                and_then (getitem_str j ''data'') (\<lambda>d.
                and_then (getitem_int d 0) (\<lambda>r.
                and_then (getitem_str r ''node'') (\<lambda>n.
                getitem_str n ''id''))))), w')
          else (Inr PNone, w'))"

definition get_anime_name :: "transport \<Rightarrow> string \<Rightarrow> world \<Rightarrow> (exn + pyval) \<times> world" where
  "get_anime_name t name w =
     (case requests_get t (SearchUrl name) (headers (self w)) w of
        (Inl e, w') \<Rightarrow> (Inl e, w')
      | (Inr response, w') \<Rightarrow>
          if status_code response = 200 then
            (except_return_None
               (and_then (json response) (\<lambda>j.
                and_then (getitem_str j ''data'') (\<lambda>d.
                and_then (getitem_int d 0) (\<lambda>r.
                and_then (getitem_str r ''node'') (\<lambda>n.
                getitem_str n ''title''))))), w')
          else (Inr PNone, w'))"

definition get_anime_genres :: "transport \<Rightarrow> string \<Rightarrow> world \<Rightarrow> (exn + pyval) \<times> world" where
  "get_anime_genres t name w =
     (case get_anime_id t name w of
        (Inl e, w1) \<Rightarrow> (Inl e, w1)
      | (Inr anime_id, w1) \<Rightarrow>
          if anime_id = PNone then (Inr anime_id, w1)
          else
            (case requests_get t (DetailUrl anime_id) (headers (self w1)) w1 of
               (Inl e, w2) \<Rightarrow> (Inl e, w2)
             | (Inr response, w2) \<Rightarrow>
                 if status_code response = 200 then
                   (except_return_None
                      (and_then (json response) (\<lambda>j.
                       and_then (getitem_str j ''genres'') (\<lambda>g.
                       and_then (iterate g) (\<lambda>genres.
                       and_then (comprehension (\<lambda>genre. getitem_str genre ''name'') genres)
                         (str_join '', ''))))), w2)
                 else (Inr PNone, w2)))"

text \<open>The two requests the lookups make, as the source builds them.\<close>

abbreviation (input) search_request :: "string \<Rightarrow> world \<Rightarrow> request" where
  "search_request name w \<equiv> \<lparr>req_url = SearchUrl name, req_headers = headers (self w)\<rparr>"

abbreviation (input) detail_request :: "pyval \<Rightarrow> world \<Rightarrow> request" where
  "detail_request anime_id w \<equiv> \<lparr>req_url = DetailUrl anime_id, req_headers = headers (self w)\<rparr>"

text \<open>The subscript chains inside the two \<open>try\<close> blocks, named for the lemmas below.\<close>

abbreviation (input) first_node_field :: "pyval \<Rightarrow> string \<Rightarrow> exn + pyval" where
  "first_node_field j f \<equiv>
     and_then (getitem_str j ''data'') (\<lambda>d.
     and_then (getitem_int d 0) (\<lambda>r.
     and_then (getitem_str r ''node'') (\<lambda>n.
     getitem_str n f)))"

abbreviation (input) genre_names :: "pyval \<Rightarrow> exn + pyval" where
  "genre_names j \<equiv>
     and_then (getitem_str j ''genres'') (\<lambda>g.
     and_then (iterate g) (\<lambda>genres.
     and_then (comprehension (\<lambda>genre. getitem_str genre ''name'') genres)
       (str_join '', '')))"

section \<open>The chart renderer\<close>

text \<open>
  A pandas column is a list of entries, \<open>None\<close> for a missing one (NaN). A DataFrame has
  its number of rows, \<open>len(df)\<close>, and its labelled columns, each of that length. pandas
  allows two columns with the same label.
\<close>

record 'a dataframe =
  nrows :: nat
  series :: "(string \<times> 'a option list) list"

text \<open>
  What \<open>plot_donut_chart\<close> hands to \<open>ax.pie\<close> and \<open>ax.set_title\<close>. The labels are Cyrillic
  and kept as lists of code points. The float literal \<open>0.1\<close> is the rational it denotes.
  The percentage labels the plotting library computes from \<open>autopct\<close> are left out. When
  the label selects several columns the sizes are whole columns of counts, which \<open>ax.pie\<close>
  refuses with a \<open>ValueError\<close>.
\<close>

record donut =
  sizes :: "int list"
  explode :: "rat \<times> rat"
  labels :: "nat list list"
  colors :: "string list"
  donut_title :: string

definition isna :: "'a option list \<Rightarrow> bool list" where
  "isna col = map (\<lambda>c. c = None) col"

definition sum_bools :: "bool list \<Rightarrow> int" where
  "sum_bools bs = sum_list (map of_bool bs)"

text \<open>
  \<open>df[column]\<close>: the columns with that label. None is a \<open>KeyError\<close>; one is the column;
  several are a frame of them.
\<close>

definition getitem_column :: "'a dataframe \<Rightarrow> string \<Rightarrow> 'a option list list" where
  "getitem_column df column = map snd (filter (\<lambda>(label, col). label = column) (series df))"

text \<open>
  \<open>ax.pie\<close> of the plotting library, as far as it refuses its input: the sizes must be
  numbers, none negative, and not all zero.
\<close>

definition ax_pie :: "int list \<Rightarrow> exn + int list" where
  "ax_pie x = (if list_ex (\<lambda>s. s < 0) x \<or> sum_list x = 0 then Inl ValueError else Inr x)"

definition plot_donut_chart :: "'a dataframe \<Rightarrow> string \<Rightarrow> exn + donut" where
  "plot_donut_chart df column =
     (case getitem_column df column of
        [] \<Rightarrow> Inl KeyError
      | [col] \<Rightarrow>
          (let missing_values = isna col;
               missing_count = sum_bools missing_values;
               filled_count = int (nrows df) - missing_count;
               sizes = [missing_count, filled_count];
               labels = [[1055, 1088, 1086, 1087, 1091, 1089, 1082, 1080],
                         [1047, 1072, 1087, 1086, 1083, 1085, 1077, 1085, 1085, 1099, 1077, 32,
                          1079, 1085, 1072, 1095, 1077, 1085, 1080, 1103]];
               colors = [''#ff9999'', ''#66b3ff''];
               explode = (1 / 10, 0)
           in and_then (ax_pie sizes) (\<lambda>drawn.
                Inr \<lparr>sizes = drawn, explode = explode, labels = labels, colors = colors,
                     donut_title = column\<rparr>))
      | _ \<Rightarrow> Inl ValueError)"

text \<open>
  \<open>value_counts\<close>: the entries that are not missing, counted, one row for each distinct
  value, the most frequent first. pandas leaves the order among equal counts to its sorting
  routine; here rows with equal counts stay in the order of first appearance.
\<close>

definition present :: "'a option list \<Rightarrow> 'a list" where
  "present col = [v. Some v \<leftarrow> col]"

fun first_seen :: "'a list \<Rightarrow> 'a list" where
  "first_seen [] = []"
| "first_seen (x # xs) = x # filter (\<lambda>y. y \<noteq> x) (first_seen xs)"

definition sort_values_descending :: "('a \<times> int) list \<Rightarrow> ('a \<times> int) list" where
  "sort_values_descending s = sort_key (\<lambda>(v, n). - n) s"

definition value_counts :: "'a option list \<Rightarrow> ('a \<times> int) list" where
  "value_counts col =
     (let vs = present col
      in sort_values_descending (map (\<lambda>v. (v, int (count_list vs v))) (first_seen vs)))"

text \<open>\<open>s.head(n)\<close>: the first \<open>n\<close> rows, or all but the last \<open>-n\<close> when \<open>n\<close> is negative.\<close>

definition head :: "int \<Rightarrow> 'a list \<Rightarrow> 'a list" where
  "head n xs = (if 0 \<le> n then take (nat n) xs else take (length xs - nat (- n)) xs)"

text \<open>\<open>s[n:]\<close>: the rows from position \<open>n\<close> on, or the last \<open>-n\<close> when \<open>n\<close> is negative.\<close>

definition slice_from :: "int \<Rightarrow> 'a list \<Rightarrow> 'a list" where
  "slice_from n xs = (if 0 \<le> n then drop (nat n) xs else drop (length xs - nat (- n)) xs)"

text \<open>\<open>s[label] = value\<close>: the row with that label is overwritten, or a new row is
  appended at the end.\<close>

fun setitem :: "('a \<times> int) list \<Rightarrow> 'a \<Rightarrow> int \<Rightarrow> ('a \<times> int) list" where
  "setitem [] k v = [(k, v)]"
| "setitem ((k', v') # rest) k v =
     (if k' = k then (k', v) # rest else (k', v') # setitem rest k v)"

text \<open>The share of a count in a total, in percent, as an exact number.\<close>

definition percent :: "int \<Rightarrow> int \<Rightarrow> rat" where
  "percent v whole = (of_int v / of_int whole) * 100"

text \<open>Rounding to the nearest integer, a tie to the even one.\<close>

definition round_half_even :: "rat \<Rightarrow> int" where
  "round_half_even x =
     (let f = \<lfloor>x\<rfloor>; d = x - of_int f
      in if d < 1 / 2 then f else if 1 / 2 < d then f + 1 else if even f then f else f + 1)"

text \<open>
  Binary floating point with 53 bits of precision (IEEE 754 binary64), the arithmetic of
  \<open>value/total\<close> and \<open>* 100\<close> on numpy's 64-bit numbers. \<open>ilog2 x\<close> is the exponent \<open>e\<close> with
  \<open>2^e \<le> x < 2^(e+1)\<close> of a positive \<open>x\<close>; \<open>binary64 x\<close> is the floating-point number
  nearest to \<open>x\<close>, a tie to the one with the even mantissa. Counts are far below the
  range where a quotient overflows.
\<close>

function bit_length :: "int \<Rightarrow> int" where
  "bit_length n = (if n \<le> 0 then 0 else 1 + bit_length (n div 2))"
  by pat_completeness auto
termination
  by (relation "measure nat") auto

declare bit_length.simps [simp del]

definition ilog2 :: "rat \<Rightarrow> int" where
  "ilog2 x =
     (if 1 \<le> x then bit_length \<lfloor>x\<rfloor> - 1
      else (let k = bit_length \<lfloor>1 / x\<rfloor> - 1
            in if x = 2 powi (- k) then - k else - k - 1))"

definition binary64 :: "rat \<Rightarrow> rat" where
  "binary64 x =
     (if x = 0 then 0
      else (let a = \<bar>x\<bar>; e = max (ilog2 a) (- 1022); u = 2 powi (e - 52)
            in sgn x * of_int (round_half_even (a / u)) * u))"

text \<open>
  The annotation \<open>f'{(value/total)*100:.0f}%'\<close>: the two counts become floats, the
  quotient and the product are each rounded to a float, and the format rounds the result
  to the nearest integer, a tie to the even one. Dividing by a zero total (numpy integers)
  gives \<open>nan\<close> or an infinity and no exception.
\<close>

definition float_percent :: "int \<Rightarrow> int \<Rightarrow> rat" where
  "float_percent v whole =
     binary64 (binary64 (binary64 (of_int v) / binary64 (of_int whole)) * 100)"

text \<open>Decimal digits; \<open>digit\<close> is only ever applied to a number below ten.\<close>

definition digit :: "nat \<Rightarrow> char" where
  "digit n = ''0123456789'' ! n"

function show_nat :: "nat \<Rightarrow> string" where
  "show_nat n = (if n < 10 then [digit n] else show_nat (n div 10) @ [digit (n mod 10)])"
  by pat_completeness auto
termination
  by (relation "measure id") auto

declare show_nat.simps [simp del]

definition format_0f :: "rat \<Rightarrow> string" where
  "format_0f x = (if x < 0 then ''-'' else []) @ show_nat (nat \<bar>round_half_even x\<bar>)"

definition percent_label :: "int \<Rightarrow> int \<Rightarrow> string" where
  "percent_label v whole =
     (if whole = 0 then (if v = 0 then ''nan'' else if 0 < v then ''inf'' else ''-inf'')
      else format_0f (float_percent v whole)) @ ''%''"

text \<open>\<open>max(s)\<close> of the builtins: an empty sequence raises.\<close>

definition py_max :: "int list \<Rightarrow> exn + int" where
  "py_max xs = (if xs = [] then Inl ValueError else Inr (Max (set xs)))"

text \<open>
  What the two bar functions draw: the bars in order with their heights, the palette
  (entry \<open>k\<close> is the shade, out of as many as there are bars, of bar \<open>k\<close>; the highest is the
  most saturated), the annotations with their positions, the title and the upper limit
  of the count axis. With no bar at all the functions end in the \<open>ValueError\<close> of \<open>max\<close>,
  if the plotting library has not raised before.
\<close>

record bar_chart =
  bars :: "(string \<times> int) list"
  palette :: "nat list"
  texts :: "(rat \<times> rat \<times> string) list"
  chart_title :: string
  axis_limit :: int

definition plot_bar :: "string option list \<Rightarrow> string \<Rightarrow> int \<Rightarrow> exn + bar_chart" where
  "plot_bar column title limit =
     (let type_counts = sort_values_descending (value_counts column);
          top_categories = head limit type_counts;
          top_categories =
            (if limit < int (length type_counts)
             then (let other_count = sum_list (map snd (slice_from limit type_counts))
                   in setitem top_categories ''Other'' other_count)
             else top_categories);
          top_categories_sum = sum_list (map snd top_categories)
      in and_then (py_max (map snd top_categories)) (\<lambda>m.
           Inr \<lparr>bars = top_categories,
                palette = rev [0..<length top_categories],
                texts = map (\<lambda>(index, v).
                          (of_nat index, of_int v + 1 / 2, percent_label v top_categories_sum))
                          (enumerate 0 (map snd top_categories)),
                chart_title = title,
                axis_limit = m + 40\<rparr>))"

definition plot_horizontal_bar :: "string option list \<Rightarrow> string \<Rightarrow> int \<Rightarrow> exn + bar_chart" where
  "plot_horizontal_bar column title limit =
     (let type_counts = sort_values_descending (value_counts column);
          top_categories = head limit type_counts;
          top_categories =
            (if limit < int (length type_counts)
             then (let other_count = sum_list (map snd (slice_from limit type_counts))
                   in setitem top_categories ''Other'' other_count)
             else top_categories);
          total_sum = sum_list (map snd top_categories)
      in and_then (py_max (map snd top_categories)) (\<lambda>m.
           Inr \<lparr>bars = top_categories,
                palette = rev [0..<length top_categories],
                texts = map (\<lambda>(index, v).
                          (of_int v + 1 / 2, of_nat index, percent_label v total_sum))
                          (enumerate 0 (map snd top_categories)),
                chart_title = title,
                axis_limit = m + 40\<rparr>))"





record 'c matrix =
  index :: "string list"
  cells :: "'c list list"



text \<open>What \<open>plot_correlation_matrix\<close> draws: the matrix, each cell annotated in the
  format \<open>.2f\<close>, and the title.\<close>

record 'c heatmap =
  drawn :: "'c matrix"
  annot :: bool
  fmt :: string
  heatmap_title :: string





section \<open>Example tables\<close>

text \<open>
  A column with the frequencies a: 50, b: 30, c: 20, d: 10, e: 5, the rarest value first
  and three missing entries in between; a table of ten rows whose column \<open>score\<close> has
  three missing entries; a dataset with a column of numbers and a column of titles and one
  with two columns of numbers; a stand-in for the correlation coefficient, which says
  whether two columns are the same; and the frequencies and the sorted counts of the
  column, for stating what holds of every column with them.
\<close>

definition survey :: "string option list" where
  "survey =
     replicate 5 (Some ''e'') @ [None] @ replicate 10 (Some ''d'') @ replicate 20 (Some ''c'')
       @ replicate 30 (Some ''b'') @ [None, None] @ replicate 50 (Some ''a'')"

definition ratings :: "nat dataframe" where
  "ratings =
     \<lparr>nrows = 10,
      series = [(''score'', [Some 1, None, Some 2, None, None, Some 1, Some 1, Some 1, Some 1,
                             Some 1])]\<rparr>"




abbreviation (input) example_frequencies :: "string \<Rightarrow> nat" where
  "example_frequencies v \<equiv>
     (if v = ''a'' then 50 else if v = ''b'' then 30 else if v = ''c'' then 20
      else if v = ''d'' then 10 else if v = ''e'' then 5 else 0)"

abbreviation (input) example_counts :: "(string \<times> int) list" where
  "example_counts \<equiv> [(''a'', 50), (''b'', 30), (''c'', 20), (''d'', 10), (''e'', 5)]"

section \<open>Mocked transports\<close>

text \<open>
  Transports for running the lookups on concrete inputs: a catalog that answers every
  search with one result and every detail request with three genres; a service that
  answers 404 to everything; searches that find nothing; payloads with wrong types where
  the lookups read; a result without its \<open>node\<close>; genres without a \<open>name\<close>; an empty
  genres list; and a body that is not JSON.
\<close>

definition catalog :: transport where
  "catalog h rq =
     (case req_url rq of
        SearchUrl q \<Rightarrow>
          Inr \<lparr>status_code = 200,
               body = Some (PDict [(''data'', PList [PDict [(''node'',
                        PDict [(''id'', PInt 20), (''title'', PStr ''Naruto'')])]])])\<rparr>
      | DetailUrl i \<Rightarrow>
          Inr \<lparr>status_code = 200,
               body = Some (PDict [(''id'', PInt 20), (''genres'',
                        PList [PDict [(''id'', PInt 1), (''name'', PStr ''Action'')],
                               PDict [(''id'', PInt 2), (''name'', PStr ''Adventure'')],
                               PDict [(''id'', PInt 10), (''name'', PStr ''Fantasy'')]])])\<rparr>)"

definition not_found :: transport where
  "not_found h rq = Inr \<lparr>status_code = 404, body = None\<rparr>"

definition empty_search :: transport where
  "empty_search h rq = Inr \<lparr>status_code = 200, body = Some (PDict [(''data'', PList [])])\<rparr>"

definition odd_types :: transport where
  "odd_types h rq =
     (case req_url rq of
        SearchUrl q \<Rightarrow>
          Inr \<lparr>status_code = 200,
               body = Some (PDict [(''data'', PList [PDict [(''node'',
                        PDict [(''id'', PStr ''20''), (''title'', PInt 20)])]])])\<rparr>
      | DetailUrl i \<Rightarrow>
          Inr \<lparr>status_code = 200, body = Some (PDict [(''genres'', PDict [])])\<rparr>)"

definition no_node :: transport where
  "no_node h rq =
     Inr \<lparr>status_code = 200,
          body = Some (PDict [(''data'', PList [PDict [(''id'', PInt 20)]])])\<rparr>"

definition nameless_genres :: transport where
  "nameless_genres h rq =
     (case req_url rq of
        SearchUrl q \<Rightarrow>
          Inr \<lparr>status_code = 200,
               body = Some (PDict [(''data'', PList [PDict [(''node'',
                        PDict [(''id'', PInt 20), (''title'', PStr ''Naruto'')])]])])\<rparr>
      | DetailUrl i \<Rightarrow>
          Inr \<lparr>status_code = 200,
               body = Some (PDict [(''genres'', PList [PDict [(''id'', PInt 1)]])])\<rparr>)"

definition no_genres :: transport where
  "no_genres h rq =
     (case req_url rq of
        SearchUrl q \<Rightarrow>
          Inr \<lparr>status_code = 200,
               body = Some (PDict [(''data'', PList [PDict [(''node'',
                        PDict [(''id'', PInt 20), (''title'', PStr ''Naruto'')])]])])\<rparr>
      | DetailUrl i \<Rightarrow>
          Inr \<lparr>status_code = 200, body = Some (PDict [(''genres'', PList [])])\<rparr>)"

definition not_json :: transport where
  "not_json h rq = Inr \<lparr>status_code = 200, body = None\<rparr>"

definition fresh :: world where
  "fresh = \<lparr>self = init ''key'', sent = []\<rparr>"

section \<open>The payload shapes the lookups read\<close>

text \<open>
  What a decoded payload holds where a lookup reads it, written from the wire format
  (\<open>data[0].node.id\<close>, \<open>data[0].node.title\<close>, \<open>genres[*].name\<close>) and not from the
  code; the lookups are compared with these below. \<open>stored_field f\<close> is the value under
  key \<open>f\<close> of the object \<open>node\<close> of the first element of the array \<open>data\<close>, when the
  payload is an object of that shape. \<open>stored_genres\<close> is the list of the \<open>name\<close> strings
  of the elements of \<open>genres\<close>, when each is an object with a string \<open>name\<close>; an empty
  object or an empty string in place of the array has no element either.
\<close>

definition stored_field :: "string \<Rightarrow> pyval \<Rightarrow> pyval option" where
  "stored_field f j =
     (case j of
        PDict p \<Rightarrow>
          (case map_of p ''data'' of
             Some (PList (PDict r # rs)) \<Rightarrow>
               (case map_of r ''node'' of Some (PDict n) \<Rightarrow> map_of n f | _ \<Rightarrow> None)
           | _ \<Rightarrow> None)
      | _ \<Rightarrow> None)"

fun names_of :: "pyval list \<Rightarrow> string list option" where
  "names_of [] = Some []"
| "names_of (PDict d # xs) =
     (case map_of d ''name'' of
        Some (PStr s) \<Rightarrow> (case names_of xs of None \<Rightarrow> None | Some ss \<Rightarrow> Some (s # ss))
      | _ \<Rightarrow> None)"
| "names_of (_ # xs) = None"

definition stored_genres :: "pyval \<Rightarrow> string list option" where
  "stored_genres j =
     (case j of
        PDict p \<Rightarrow>
          (case map_of p ''genres'' of
             Some (PList items) \<Rightarrow> names_of items
           | Some (PDict d) \<Rightarrow> (if d = [] then Some [] else None)
           | Some (PStr s) \<Rightarrow> (if s = [] then Some [] else None)
           | _ \<Rightarrow> None)
      | _ \<Rightarrow> None)"

section \<open>The lookups: what a call does to the world\<close>

lemma get_anime_id_world:
  "snd (get_anime_id t name w) = w\<lparr>sent := sent w @ [search_request name w]\<rparr>"
  by (simp add: get_anime_id_def requests_get_def Let_def split: sum.splits)

lemma get_anime_name_world:
  "snd (get_anime_name t name w) = w\<lparr>sent := sent w @ [search_request name w]\<rparr>"
  by (simp add: get_anime_name_def requests_get_def Let_def split: sum.splits)

lemma get_anime_genres_None:
  assumes "get_anime_id t name w = (Inr PNone, w1)"
  shows "get_anime_genres t name w = (Inr PNone, w1)"
  using assms by (simp add: get_anime_genres_def)

lemma get_anime_genres_self:
  "self (snd (get_anime_genres t name w)) = self w"
proof (cases "get_anime_id t name w")
  case (Pair r w1)
  then have w1: "w1 = w\<lparr>sent := sent w @ [search_request name w]\<rparr>"
    using get_anime_id_world [of t name w] by simp
  show ?thesis
    using Pair w1
    by (simp add: get_anime_genres_def requests_get_def Let_def split: sum.splits)
qed

section \<open>Subscripts and the caught exceptions\<close>

lemma index_of_0: "index_of n 0 = (if n = 0 then None else Some 0)"
  by (simp add: index_of_def)

lemma getitem_str_Inr:
  "getitem_str x k = Inr v \<longleftrightarrow> (\<exists>d. x = PDict d \<and> map_of d k = Some v)"
  by (cases x) (auto split: option.splits)

lemma getitem_str_Inl:
  "getitem_str x k = Inl e \<Longrightarrow> e = KeyError \<or> e = TypeError"
  by (cases x) (auto split: option.splits)

lemma getitem_int_Inl:
  "getitem_int x i = Inl e \<Longrightarrow> e = KeyError \<or> e = IndexError \<or> e = TypeError"
  by (cases x) (auto split: option.splits)

lemma getitem_int_0_PDict:
  "getitem_int x 0 = Inr (PDict r) \<longleftrightarrow> (\<exists>rs. x = PList (PDict r # rs))"
proof (cases x)
  case (PList xs)
  then show ?thesis by (cases xs) (auto simp: index_of_0)
qed (auto simp: index_of_0 split: if_splits)

lemma first_node_field_found:
  assumes "map_of p ''data'' = Some (PList (PDict r # rs))"
    and "map_of r ''node'' = Some (PDict n)"
  shows "first_node_field (PDict p) f =
           (case map_of n f of None \<Rightarrow> Inl KeyError | Some v \<Rightarrow> Inr v)"
  using assms by (simp add: and_then_def index_of_0)

lemma first_node_field_Inr:
  assumes "first_node_field j f = Inr v"
  shows "\<exists>p r rs n. j = PDict p \<and> map_of p ''data'' = Some (PList (PDict r # rs))
        \<and> map_of r ''node'' = Some (PDict n) \<and> map_of n f = Some v"
proof -
  from assms obtain d where d: "getitem_str j ''data'' = Inr d"
    and 1: "and_then (getitem_int d 0)
              (\<lambda>r. and_then (getitem_str r ''node'') (\<lambda>n. getitem_str n f)) = Inr v"
    by (auto simp: and_then_def split: sum.splits)
  from 1 obtain x where x: "getitem_int d 0 = Inr x"
    and 2: "and_then (getitem_str x ''node'') (\<lambda>n. getitem_str n f) = Inr v"
    by (auto simp: and_then_def split: sum.splits)
  from 2 obtain y where y: "getitem_str x ''node'' = Inr y" and 3: "getitem_str y f = Inr v"
    by (auto simp: and_then_def split: sum.splits)
  from d obtain p where p: "j = PDict p" "map_of p ''data'' = Some d"
    by (auto simp: getitem_str_Inr)
  from y obtain r where r: "x = PDict r" "map_of r ''node'' = Some y"
    by (auto simp: getitem_str_Inr)
  from 3 obtain n where n: "y = PDict n" "map_of n f = Some v"
    by (auto simp: getitem_str_Inr)
  from x r obtain rs where "d = PList (PDict r # rs)"
    by (auto simp: getitem_int_0_PDict)
  with p r n show ?thesis by blast
qed

lemma first_node_field_Inl:
  "first_node_field j f = Inl e \<Longrightarrow> e = KeyError \<or> e = IndexError \<or> e = TypeError"
  by (auto simp: and_then_def split: sum.splits dest: getitem_str_Inl getitem_int_Inl)

section \<open>A response with status 200\<close>

lemma get_anime_id_200:
  assumes "t (sent w) (search_request name w) = Inr resp" and "status_code resp = 200"
  shows "fst (get_anime_id t name w) =
           except_return_None (and_then (json resp) (\<lambda>j. first_node_field j ''id''))"
  using assms by (simp add: get_anime_id_def requests_get_def Let_def)

lemma get_anime_name_200:
  assumes "t (sent w) (search_request name w) = Inr resp" and "status_code resp = 200"
  shows "fst (get_anime_name t name w) =
           except_return_None (and_then (json resp) (\<lambda>j. first_node_field j ''title''))"
  using assms by (simp add: get_anime_name_def requests_get_def Let_def)

lemma get_anime_genres_200:
  assumes "fst (get_anime_id t name w) = Inr anime_id" and "anime_id \<noteq> PNone"
    and "t (sent w @ [search_request name w]) (detail_request anime_id w) = Inr resp"
    and "status_code resp = 200"
  shows "fst (get_anime_genres t name w) = except_return_None (and_then (json resp) genre_names)"
proof -
  have "get_anime_id t name w = (Inr anime_id, snd (get_anime_id t name w))"
    using assms(1) by (metis prod.collapse)
  then have "get_anime_id t name w = (Inr anime_id, w\<lparr>sent := sent w @ [search_request name w]\<rparr>)"
    by (simp add: get_anime_id_world)
  then show ?thesis
    using assms(2-4) by (simp add: get_anime_genres_def requests_get_def Let_def)
qed

section \<open>The lookups against the payload shapes\<close>

lemma except_and_then:
  "except_return_None (and_then r f) =
     (case r of Inl e \<Rightarrow> except_return_None (Inl e) | Inr v \<Rightarrow> except_return_None (f v))"
  by (simp add: and_then_def split: sum.splits)

lemma first_node_field_stored:
  "except_return_None (first_node_field j f) =
     Inr (case stored_field f j of None \<Rightarrow> PNone | Some v \<Rightarrow> v)"
proof (cases "first_node_field j f")
  case (Inl e)
  then have e: "e = KeyError \<or> e = IndexError \<or> e = TypeError"
    by (rule first_node_field_Inl)
  have "stored_field f j = None"
  proof (cases "stored_field f j")
    case (Some v)
    then obtain p r rs n where "j = PDict p" "map_of p ''data'' = Some (PList (PDict r # rs))"
      "map_of r ''node'' = Some (PDict n)" "map_of n f = Some v"
      by (auto simp: stored_field_def split: pyval.splits option.splits list.splits)
    then have "first_node_field j f = Inr v"
      using first_node_field_found [of p r rs n f] by simp
    with Inl show ?thesis by simp
  qed simp
  with Inl e show ?thesis by (auto simp: except_return_None_def)
next
  case (Inr v)
  then obtain p r rs n where "j = PDict p" "map_of p ''data'' = Some (PList (PDict r # rs))"
      "map_of r ''node'' = Some (PDict n)" "map_of n f = Some v"
    using first_node_field_Inr [of j f v] by blast
  then have "stored_field f j = Some v"
    by (simp add: stored_field_def)
  with Inr show ?thesis by (simp add: except_return_None_def)
qed

lemma comprehension_names:
  "(case comprehension (\<lambda>genre. getitem_str genre ''name'') items of
      Inl e \<Rightarrow> names_of items = None \<and> (e = KeyError \<or> e = TypeError)
    | Inr ys \<Rightarrow> as_strs ys = names_of items)"
proof (induction items)
  case Nil
  then show ?case by simp
next
  case (Cons x xs)
  show ?case
  proof (cases x)
    case (PDict d)
    show ?thesis
    proof (cases "map_of d ''name''")
      case None
      with PDict show ?thesis by simp
    next
      case (Some v)
      with PDict Cons show ?thesis
        by (cases v) (auto split: sum.splits option.splits)
    qed
  qed simp_all
qed

lemma names_chain:
  "except_return_None
     (and_then (comprehension (\<lambda>genre. getitem_str genre ''name'') items) (str_join sep)) =
   Inr (case names_of items of None \<Rightarrow> PNone | Some ns \<Rightarrow> PStr (join_strs sep ns))"
  using comprehension_names [of items]
  by (auto simp: and_then_def str_join_def except_return_None_def split: sum.splits option.splits)

lemma genre_names_stored:
  "except_return_None (genre_names j) =
     Inr (case stored_genres j of None \<Rightarrow> PNone | Some ns \<Rightarrow> PStr (join_strs '', '' ns))"
proof (cases j)
  case (PDict p)
  show ?thesis
  proof (cases "map_of p ''genres''")
    case None
    with PDict show ?thesis
      by (simp add: and_then_def except_return_None_def stored_genres_def)
  next
    case (Some g)
    have "except_return_None (genre_names j) =
            except_return_None (and_then (iterate g) (\<lambda>genres.
              and_then (comprehension (\<lambda>genre. getitem_str genre ''name'') genres)
                (str_join '', '')))"
      using PDict Some by (simp add: and_then_def)
    also have "\<dots> = Inr (case stored_genres j of None \<Rightarrow> PNone
                             | Some ns \<Rightarrow> PStr (join_strs '', '' ns))"
    proof (cases g)
      case (PList items)
      then show ?thesis
        using PDict Some names_chain [of items "'', ''"]
        by (simp add: except_and_then stored_genres_def)
    next
      case (PDict d)
      then show ?thesis
        using \<open>j = PDict p\<close> Some names_chain [of "map (\<lambda>(k, v). PStr k) d" "'', ''"]
        by (cases d) (auto simp: except_and_then stored_genres_def)
    next
      case (PStr s)
      then show ?thesis
        using \<open>j = PDict p\<close> Some names_chain [of "map (\<lambda>c. PStr [c]) s" "'', ''"]
        by (cases s) (auto simp: except_and_then stored_genres_def)
    qed (use PDict Some in \<open>simp_all add: and_then_def except_return_None_def stored_genres_def\<close>)
    finally show ?thesis .
  qed
qed (simp_all add: and_then_def except_return_None_def stored_genres_def)

section \<open>Running the lookups on the mocked transports\<close>

lemmas run_defs = get_anime_id_def get_anime_name_def get_anime_genres_def requests_get_def
  Let_def json_def and_then_def except_return_None_def index_of_0 str_join_def fresh_def init_def

text \<open>
  A body that is not JSON is not caught: \<open>response.json()\<close> raises inside the \<open>try\<close>, and
  the exception is none of the three the \<open>except\<close> clause names.
\<close>

lemma not_json_raises:
  "fst (get_anime_id not_json ''Naruto'' fresh) = Inl JSONDecodeError"
  by (simp add: run_defs not_json_def)

section \<open>The claims about the catalog query client\<close>

text \<open>
  C2. When the transport answers the search request with a status outside 200..299 (404
  for one), \<open>get_anime_id\<close>, \<open>get_anime_name\<close> and \<open>get_anime_genres\<close> each return
  \<open>None\<close>, and none raises.
\<close>

theorem non_2xx_status_returns_None:
  assumes "t (sent w) (search_request name w) = Inr r"
    and "\<not> (200 \<le> status_code r \<and> status_code r < 300)"
  shows "fst (get_anime_id t name w) = Inr PNone
       \<and> fst (get_anime_name t name w) = Inr PNone
       \<and> fst (get_anime_genres t name w) = Inr PNone"
  using assms
  by (auto simp: get_anime_id_def get_anime_name_def get_anime_genres_def requests_get_def Let_def)

theorem non_2xx_status_returns_None_witness:
  "fst (get_anime_id not_found ''Naruto'' fresh) = Inr PNone
   \<and> fst (get_anime_name not_found ''Naruto'' fresh) = Inr PNone
   \<and> fst (get_anime_genres not_found ''Naruto'' fresh) = Inr PNone"
proof -
  have h1: "not_found (sent fresh) (search_request ''Naruto'' fresh) =
              Inr \<lparr>status_code = 404, body = None\<rparr>"
    by (simp add: not_found_def)
  have h2: "\<not> (200 \<le> status_code \<lparr>status_code = 404, body = None\<rparr>
              \<and> status_code \<lparr>status_code = 404, body = None\<rparr> < 300)"
    by simp
  show ?thesis
    by (rule non_2xx_status_returns_None [of not_found fresh "''Naruto''"
          "\<lparr>status_code = 404, body = None\<rparr>", OF h1 h2])
qed

text \<open>
  C3. Whenever \<open>get_anime_id\<close> returns \<open>None\<close> for a name, \<open>get_anime_genres\<close> returns
  \<open>None\<close> for it and the only request it has sent is the search request: no detail
  request follows, one outbound request in total.
\<close>

theorem genres_short_circuit:
  assumes "fst (get_anime_id t name w) = Inr PNone"
  shows "fst (get_anime_genres t name w) = Inr PNone
       \<and> sent (snd (get_anime_genres t name w)) = sent w @ [search_request name w]
       \<and> length (sent (snd (get_anime_genres t name w))) = length (sent w) + 1"
proof -
  have "get_anime_id t name w = (Inr PNone, snd (get_anime_id t name w))"
    using assms by (metis prod.collapse)
  then have "get_anime_genres t name w = (Inr PNone, snd (get_anime_id t name w))"
    by (rule get_anime_genres_None)
  then show ?thesis
    by (simp add: get_anime_id_world)
qed

theorem genres_short_circuit_witness:
  "fst (get_anime_id empty_search ''Naruto'' fresh) = Inr PNone
   \<and> fst (get_anime_genres empty_search ''Naruto'' fresh) = Inr PNone
   \<and> sent (snd (get_anime_genres empty_search ''Naruto'' fresh)) =
       [\<lparr>req_url = SearchUrl ''Naruto'', req_headers = [(''X-MAL-CLIENT-ID'', ''key'')]\<rparr>]
   \<and> length (sent (snd (get_anime_genres empty_search ''Naruto'' fresh))) = 1"
proof -
  have h: "fst (get_anime_id empty_search ''Naruto'' fresh) = Inr PNone"
    by (simp add: get_anime_id_def requests_get_def Let_def empty_search_def json_def
        and_then_def index_of_0 except_return_None_def)
  show ?thesis
    using h genres_short_circuit [of empty_search "''Naruto''" fresh, OF h]
    by (simp add: fresh_def init_def)
qed

text \<open>
  C4. When the search is answered with status 200 and the \<open>data\<close> array has at least
  one result, \<open>get_anime_id\<close> returns the identifier of the first one, the value at
  \<open>data[0].node.id\<close>; when the \<open>data\<close> array is empty it returns \<open>None\<close>.
\<close>

theorem get_anime_id_first_result:
  "(t (sent w) (search_request name w) = Inr \<lparr>status_code = 200, body = Some (PDict p)\<rparr>
      \<and> map_of p ''data'' = Some (PList (PDict r # rs))
      \<and> map_of r ''node'' = Some (PDict n)
      \<and> map_of n ''id'' = Some v
    \<longrightarrow> fst (get_anime_id t name w) = Inr v)
   \<and> (t (sent w) (search_request name w) = Inr \<lparr>status_code = 200, body = Some (PDict p)\<rparr>
      \<and> map_of p ''data'' = Some (PList [])
    \<longrightarrow> fst (get_anime_id t name w) = Inr PNone)"
proof (intro conjI impI)
  assume a: "t (sent w) (search_request name w) = Inr \<lparr>status_code = 200, body = Some (PDict p)\<rparr>
      \<and> map_of p ''data'' = Some (PList (PDict r # rs))
      \<and> map_of r ''node'' = Some (PDict n)
      \<and> map_of n ''id'' = Some v"
  then have "first_node_field (PDict p) ''id'' = Inr v"
    using first_node_field_found [of p r rs n "''id''"] by simp
  with a show "fst (get_anime_id t name w) = Inr v"
    by (simp add: get_anime_id_200 [where resp = "\<lparr>status_code = 200, body = Some (PDict p)\<rparr>"]
        json_def and_then_def except_return_None_def)
next
  assume a: "t (sent w) (search_request name w) = Inr \<lparr>status_code = 200, body = Some (PDict p)\<rparr>
      \<and> map_of p ''data'' = Some (PList [])"
  then show "fst (get_anime_id t name w) = Inr PNone"
    by (simp add: get_anime_id_200 [where resp = "\<lparr>status_code = 200, body = Some (PDict p)\<rparr>"]
        json_def and_then_def except_return_None_def index_of_0)
qed

theorem get_anime_id_first_result_witness:
  "fst (get_anime_id catalog ''Naruto'' fresh) = Inr (PInt 20)
   \<and> fst (get_anime_id empty_search ''Naruto'' fresh) = Inr PNone"
proof
  show "fst (get_anime_id catalog ''Naruto'' fresh) = Inr (PInt 20)"
    using get_anime_id_first_result [of catalog fresh "''Naruto''"
        "[(''data'', PList [PDict [(''node'',
                        PDict [(''id'', PInt 20), (''title'', PStr ''Naruto'')])]])]"
        "[(''node'', PDict [(''id'', PInt 20), (''title'', PStr ''Naruto'')])]" "[]"
        "[(''id'', PInt 20), (''title'', PStr ''Naruto'')]" "PInt 20"]
    by (simp add: catalog_def)
  show "fst (get_anime_id empty_search ''Naruto'' fresh) = Inr PNone"
    using get_anime_id_first_result [of empty_search fresh "''Naruto''" "[(''data'', PList [])]"]
    by (simp add: empty_search_def)
qed

text \<open>
  C9. The headers set at construction stay as they are: after \<open>get_anime_id\<close>,
  \<open>get_anime_name\<close> or \<open>get_anime_genres\<close> on a client built from \<open>client_id\<close>, whatever
  the transport did and whatever was sent before, the client's \<open>headers\<close> field is the
  single entry \<open>X-MAL-CLIENT-ID: client_id\<close>.
\<close>

theorem client_headers_unchanged:
  "headers (self (snd (get_anime_id t name \<lparr>self = init client_id, sent = s\<rparr>))) =
     [(''X-MAL-CLIENT-ID'', client_id)]
   \<and> headers (self (snd (get_anime_name t name \<lparr>self = init client_id, sent = s\<rparr>))) =
     [(''X-MAL-CLIENT-ID'', client_id)]
   \<and> headers (self (snd (get_anime_genres t name \<lparr>self = init client_id, sent = s\<rparr>))) =
     [(''X-MAL-CLIENT-ID'', client_id)]"
  by (simp add: get_anime_id_world get_anime_name_world get_anime_genres_self init_def)

text \<open>
  C1, as stated, fails: a payload with wrong types where the lookups read is not turned
  into \<open>None\<close>, and neither is an empty \<open>genres\<close> array. With a string for the identifier,
  a number for the title and an object for \<open>genres\<close>, the three lookups return the
  string, the number and the empty string; with an empty array for \<open>genres\<close>,
  \<open>get_anime_genres\<close> returns the empty string.
\<close>

theorem wrong_types_not_None_counterexample:
  "fst (get_anime_id odd_types ''Naruto'' fresh) = Inr (PStr ''20'')
   \<and> fst (get_anime_name odd_types ''Naruto'' fresh) = Inr (PInt 20)
   \<and> fst (get_anime_genres odd_types ''Naruto'' fresh) = Inr (PStr [])
   \<and> fst (get_anime_genres no_genres ''Naruto'' fresh) = Inr (PStr [])
   \<and> Inr (PStr ''20'') \<noteq> (Inr PNone :: exn + pyval)
   \<and> Inr (PInt 20) \<noteq> (Inr PNone :: exn + pyval)
   \<and> Inr (PStr []) \<noteq> (Inr PNone :: exn + pyval)"
  by (simp add: run_defs odd_types_def no_genres_def)

text \<open>
  C1, as the code has it. A response with status 200 whose body decodes as JSON never makes
  a lookup raise. \<open>get_anime_id\<close> (\<open>get_anime_name\<close>) returns the value stored at
  \<open>data[0].node.id\<close> (\<open>data[0].node.title\<close>) as it is, whatever its type, and \<open>None\<close> when
  the payload has no such place: it is not an object, a key is missing, \<open>data\<close> is not a
  non-empty array, or its first element or \<open>node\<close> is not an object. \<open>get_anime_genres\<close>,
  the identifier resolved, returns the names joined by a comma and a space when \<open>genres\<close>
  holds objects with a string \<open>name\<close> each (the empty string when it holds nothing), and
  \<open>None\<close> otherwise.
\<close>

theorem lookups_on_decoded_payload:
  "(t (sent w) (search_request name w) = Inr \<lparr>status_code = 200, body = Some j\<rparr> \<longrightarrow>
      fst (get_anime_id t name w) =
        Inr (case stored_field ''id'' j of None \<Rightarrow> PNone | Some v \<Rightarrow> v)
    \<and> fst (get_anime_name t name w) =
        Inr (case stored_field ''title'' j of None \<Rightarrow> PNone | Some v \<Rightarrow> v))
   \<and> (fst (get_anime_id t name w) = Inr anime_id \<and> anime_id \<noteq> PNone
      \<and> t (sent w @ [search_request name w]) (detail_request anime_id w) =
          Inr \<lparr>status_code = 200, body = Some j'\<rparr> \<longrightarrow>
      fst (get_anime_genres t name w) =
        Inr (case stored_genres j' of None \<Rightarrow> PNone | Some ns \<Rightarrow> PStr (join_strs '', '' ns)))"
proof (intro conjI impI)
  assume a: "t (sent w) (search_request name w) = Inr \<lparr>status_code = 200, body = Some j\<rparr>"
  show "fst (get_anime_id t name w) =
          Inr (case stored_field ''id'' j of None \<Rightarrow> PNone | Some v \<Rightarrow> v)"
    using get_anime_id_200 [of t w name "\<lparr>status_code = 200, body = Some j\<rparr>"] a
      first_node_field_stored [of j "''id''"]
    by (simp add: json_def and_then_def)
  show "fst (get_anime_name t name w) =
          Inr (case stored_field ''title'' j of None \<Rightarrow> PNone | Some v \<Rightarrow> v)"
    using get_anime_name_200 [of t w name "\<lparr>status_code = 200, body = Some j\<rparr>"] a
      first_node_field_stored [of j "''title''"]
    by (simp add: json_def and_then_def)
next
  assume a: "fst (get_anime_id t name w) = Inr anime_id \<and> anime_id \<noteq> PNone
      \<and> t (sent w @ [search_request name w]) (detail_request anime_id w) =
          Inr \<lparr>status_code = 200, body = Some j'\<rparr>"
  then have "fst (get_anime_genres t name w) =
      except_return_None (and_then (json \<lparr>status_code = 200, body = Some j'\<rparr>) genre_names)"
    using get_anime_genres_200 [of t name w anime_id "\<lparr>status_code = 200, body = Some j'\<rparr>"]
    by simp
  then show "fst (get_anime_genres t name w) =
        Inr (case stored_genres j' of None \<Rightarrow> PNone | Some ns \<Rightarrow> PStr (join_strs '', '' ns))"
    using genre_names_stored [of j'] by (simp add: json_def and_then_def)
qed

theorem lookups_on_decoded_payload_witness:
  "fst (get_anime_id no_node ''Naruto'' fresh) = Inr PNone
   \<and> fst (get_anime_name no_node ''Naruto'' fresh) = Inr PNone
   \<and> fst (get_anime_genres nameless_genres ''Naruto'' fresh) = Inr PNone"
proof -
  have 1: "fst (get_anime_id no_node ''Naruto'' fresh) = Inr PNone
     \<and> fst (get_anime_name no_node ''Naruto'' fresh) = Inr PNone"
    using lookups_on_decoded_payload [of no_node fresh "''Naruto''"
        "PDict [(''data'', PList [PDict [(''id'', PInt 20)]])]"]
    by (simp add: no_node_def stored_field_def)
  have h: "fst (get_anime_id nameless_genres ''Naruto'' fresh) = Inr (PInt 20)"
    by (simp add: run_defs nameless_genres_def)
  have 2: "fst (get_anime_genres nameless_genres ''Naruto'' fresh) = Inr PNone"
    using h lookups_on_decoded_payload [of nameless_genres fresh "''Naruto''" _ "PInt 20"
        "PDict [(''genres'', PList [PDict [(''id'', PInt 1)]])]"]
    by (simp add: nameless_genres_def stored_genres_def)
  from 1 2 show ?thesis by simp
qed

text \<open>
  C5. When the identifier resolves and the detail request is answered with status 200 and
  a \<open>genres\<close> list of three entries named \<open>A\<close>, \<open>B\<close>, \<open>C\<close> in that order,
  \<open>get_anime_genres\<close> returns the one string \<open>A, B, C\<close>.
\<close>

theorem genres_joined:
  assumes "fst (get_anime_id t name w) = Inr anime_id" and "anime_id \<noteq> PNone"
    and "t (sent w @ [search_request name w]) (detail_request anime_id w) =
           Inr \<lparr>status_code = 200, body = Some (PDict p)\<rparr>"
    and "map_of p ''genres'' = Some (PList [PDict g1, PDict g2, PDict g3])"
    and "map_of g1 ''name'' = Some (PStr A)"
    and "map_of g2 ''name'' = Some (PStr B)"
    and "map_of g3 ''name'' = Some (PStr C)"
  shows "fst (get_anime_genres t name w) = Inr (PStr (A @ '', '' @ B @ '', '' @ C))"
proof -
  have "fst (get_anime_genres t name w) =
      except_return_None
        (and_then (json \<lparr>status_code = 200, body = Some (PDict p)\<rparr>) genre_names)"
    using assms(1-3) by (simp add: get_anime_genres_200)
  with assms(4-7) show ?thesis
    by (simp add: json_def and_then_def str_join_def except_return_None_def)
qed

theorem genres_joined_witness:
  "fst (get_anime_genres catalog ''Naruto'' fresh) = Inr (PStr ''Action, Adventure, Fantasy'')"
proof -
  have h: "fst (get_anime_id catalog ''Naruto'' fresh) = Inr (PInt 20)"
    by (simp add: run_defs catalog_def)
  show ?thesis
    using genres_joined [of catalog "''Naruto''" fresh "PInt 20"
        "[(''id'', PInt 20), (''genres'',
                        PList [PDict [(''id'', PInt 1), (''name'', PStr ''Action'')],
                               PDict [(''id'', PInt 2), (''name'', PStr ''Adventure'')],
                               PDict [(''id'', PInt 10), (''name'', PStr ''Fantasy'')]])]"
        "[(''id'', PInt 1), (''name'', PStr ''Action'')]"
        "[(''id'', PInt 2), (''name'', PStr ''Adventure'')]"
        "[(''id'', PInt 10), (''name'', PStr ''Fantasy'')]"
        "''Action''" "''Adventure''" "''Fantasy''", OF h]
    by (simp add: catalog_def)
qed

text \<open>
  C10. When the identifier resolves and the detail request is answered with status 200
  and an empty \<open>genres\<close> list, \<open>get_anime_genres\<close> returns the empty string, which is
  not \<open>None\<close>.
\<close>

theorem empty_genres_empty_string:
  assumes "fst (get_anime_id t name w) = Inr anime_id" and "anime_id \<noteq> PNone"
    and "t (sent w @ [search_request name w]) (detail_request anime_id w) =
           Inr \<lparr>status_code = 200, body = Some (PDict p)\<rparr>"
    and "map_of p ''genres'' = Some (PList [])"
  shows "fst (get_anime_genres t name w) = Inr (PStr [])
       \<and> fst (get_anime_genres t name w) \<noteq> Inr PNone"
proof -
  have "fst (get_anime_genres t name w) =
      except_return_None
        (and_then (json \<lparr>status_code = 200, body = Some (PDict p)\<rparr>) genre_names)"
    using assms(1-3) by (simp add: get_anime_genres_200)
  with assms(4) show ?thesis
    by (simp add: json_def and_then_def str_join_def except_return_None_def)
qed

theorem empty_genres_empty_string_witness:
  "fst (get_anime_genres no_genres ''Naruto'' fresh) = Inr (PStr [])
   \<and> fst (get_anime_genres no_genres ''Naruto'' fresh) \<noteq> Inr PNone"
proof -
  have h: "fst (get_anime_id no_genres ''Naruto'' fresh) = Inr (PInt 20)"
    by (simp add: run_defs no_genres_def)
  have d: "no_genres (sent fresh @ [search_request ''Naruto'' fresh])
             (detail_request (PInt 20) fresh) =
           Inr \<lparr>status_code = 200, body = Some (PDict [(''genres'', PList [])])\<rparr>"
    by (simp add: no_genres_def)
  have g: "map_of [(''genres'', PList [])] ''genres'' = Some (PList [])"
    by simp
  have n: "PInt 20 \<noteq> PNone"
    by simp
  show ?thesis
    by (rule empty_genres_empty_string [of no_genres "''Naruto''" fresh "PInt 20"
          "[(''genres'', PList [])]", OF h n d g])
qed


section \<open>Binary floating point: lemmas\<close>

text \<open>\<open>ilog2\<close> is the exponent it is meant to be: a positive number lies between the
  power of two it names and the next.\<close>

lemma bit_length_pos: "0 < n \<Longrightarrow> 0 < bit_length n"
proof (induction n rule: bit_length.induct)
  case (1 n)
  show ?case
  proof (cases "0 < n div 2")
    case True
    with 1 have "0 < bit_length (n div 2)" by simp
    with "1.prems" show ?thesis by (subst bit_length.simps) simp
  next
    case False
    with "1.prems" have "bit_length (n div 2) = 0" by (subst bit_length.simps) simp
    with "1.prems" show ?thesis by (subst bit_length.simps) simp
  qed
qed

lemma bit_length_bounds:
  "0 < n \<Longrightarrow> 2 ^ nat (bit_length n - 1) \<le> n \<and> n < 2 ^ nat (bit_length n)"
proof (induction n rule: bit_length.induct)
  case (1 n)
  define b where "b = bit_length (n div 2)"
  have bn: "bit_length n = 1 + b"
    using "1.prems" by (subst bit_length.simps) (simp add: b_def)
  show ?case
  proof (cases "n = 1")
    case True
    have "bit_length (0::int) = 0" by (subst bit_length.simps) simp
    with True have "b = 0" by (simp add: b_def)
    with True bn show ?thesis by simp
  next
    case False
    with "1.prems" have h: "0 < n div 2" by simp
    have bpos: "0 < b" using h by (simp add: b_def bit_length_pos)
    have IH: "2 ^ nat (b - 1) \<le> n div 2 \<and> n div 2 < 2 ^ nat b"
      using "1.IH" "1.prems" h by (simp add: b_def)
    from bpos have "nat b = Suc (nat (b - 1))" by simp
    then have p: "(2::int) ^ nat b = 2 * 2 ^ nat (b - 1)" by simp
    have "2 ^ nat b \<le> n" using IH p by linarith
    moreover have "n < 2 * 2 ^ nat b" using IH by linarith
    moreover have "nat (1 + b) = Suc (nat b)" using bpos by simp
    ultimately show ?thesis by (simp add: bn)
  qed
qed

lemma floor_bit_length:
  fixes y :: rat
  assumes "1 \<le> y"
  defines "k \<equiv> bit_length \<lfloor>y\<rfloor> - 1"
  shows "0 \<le> k" and "2 ^ nat k \<le> y" and "y < 2 ^ nat (k + 1)"
proof -
  have n: "0 < \<lfloor>y\<rfloor>" using assms(1) by simp
  from bit_length_pos [OF n] show k0: "0 \<le> k" by (simp add: k_def)
  from bit_length_bounds [OF n]
  have lo: "2 ^ nat k \<le> \<lfloor>y\<rfloor>" and hi: "\<lfloor>y\<rfloor> < 2 ^ nat (k + 1)"
    by (simp_all add: k_def)
  have "(of_int (2 ^ nat k) :: rat) \<le> of_int \<lfloor>y\<rfloor>"
    using lo by (simp only: of_int_le_iff)
  also have "\<dots> \<le> y" by simp
  finally show "2 ^ nat k \<le> y" by simp
  from hi have "\<lfloor>y\<rfloor> + 1 \<le> 2 ^ nat (k + 1)" by simp
  then have "(of_int (\<lfloor>y\<rfloor> + 1) :: rat) \<le> of_int (2 ^ nat (k + 1))"
    by (simp only: of_int_le_iff)
  moreover have "y < of_int (\<lfloor>y\<rfloor> + 1)" by linarith
  ultimately show "y < 2 ^ nat (k + 1)" by simp
qed

lemma powi_nonneg: "0 \<le> k \<Longrightarrow> (2::rat) powi k = 2 ^ nat k"
  by (simp add: power_int_def)

lemma powi_neg: "0 \<le> k \<Longrightarrow> (2::rat) powi (- k) = 1 / 2 ^ nat k"
  by (simp add: power_int_minus powi_nonneg inverse_eq_divide)

lemma ilog2_bounds:
  assumes "0 < x"
  shows "2 powi ilog2 x \<le> x \<and> x < 2 powi (ilog2 x + 1)"
proof (cases "1 \<le> x")
  case True
  define k where "k = bit_length \<lfloor>x\<rfloor> - 1"
  from floor_bit_length [OF True]
  have "0 \<le> k" and "2 ^ nat k \<le> x" and "x < 2 ^ nat (k + 1)"
    by (simp_all add: k_def)
  moreover have "ilog2 x = k" using True by (simp add: ilog2_def k_def)
  ultimately show ?thesis by (simp add: powi_nonneg)
next
  case False
  define y where "y = 1 / x"
  have y1: "1 \<le> y" using assms False by (simp add: y_def)
  have xy: "x = 1 / y" by (simp add: y_def)
  define k where "k = bit_length \<lfloor>y\<rfloor> - 1"
  from floor_bit_length [OF y1]
  have k0: "0 \<le> k" and lo: "2 ^ nat k \<le> y" and hi: "y < 2 ^ nat (k + 1)"
    by (simp_all add: k_def)
  have ypos: "0 < y" using y1 by simp
  have up: "x \<le> 2 powi (- k)"
  proof -
    have "1 / y \<le> 1 / 2 ^ nat k"
      using lo ypos by (intro divide_left_mono) simp_all
    then show ?thesis using k0 by (simp add: xy powi_neg)
  qed
  have down: "2 powi (- k - 1) < x"
  proof -
    have "1 / 2 ^ nat (k + 1) < 1 / y"
      using hi ypos by (intro divide_strict_left_mono) simp_all
    moreover have "(2::rat) powi (- k - 1) = 1 / 2 ^ nat (k + 1)"
      using k0 powi_neg [of "k + 1"] by simp
    ultimately show ?thesis by (simp add: xy)
  qed
  have il: "ilog2 x = (if x = 2 powi (- k) then - k else - k - 1)"
    using False by (simp add: ilog2_def Let_def k_def y_def)
  show ?thesis
  proof (cases "x = 2 powi (- k)")
    case True
    have "(2::rat) powi (- k) < 2 powi (- k + 1)"
      by (intro power_int_strict_increasing) simp_all
    with True il show ?thesis by simp
  next
    case False
    with up have "x < 2 powi (- k)" by simp
    with down False il show ?thesis by simp
  qed
qed

text \<open>
  Where the exact percentage is a tie or within a rounding error of one, the label is the
  one the floating-point arithmetic gives: 23 of 40 is 57.49999999999999 as a float and
  109 of 200 is 54.50000000000001; 1 of 8 and 3 of 8 are exact ties and go to the even
  neighbour.
\<close>

lemma percent_label_ties:
  "percent_label 23 40 = ''57%''" "percent_label 109 200 = ''55%''"
  "percent_label 1 8 = ''12%''" "percent_label 3 8 = ''38%''"
  by code_simp+

section \<open>The chart renderer: lemmas\<close>

lemma sum_bools_isna: "sum_bools (isna col) = int (length (filter (\<lambda>c. c = None) col))"
  by (induction col) (simp_all add: sum_bools_def isna_def)

lemma filter_label_absent:
  assumes "k \<notin> fst ` set xs"
  shows "filter (\<lambda>(label, col). label = k) xs = []"
  using assms by (induction xs) auto

lemma getitem_column_single:
  assumes "distinct (map fst (series df))" and "map_of (series df) column = Some col"
  shows "getitem_column df column = [col]"
proof -
  have "map snd (filter (\<lambda>(label, c). label = k) xs) = [v]"
    if "distinct (map fst xs)" and "map_of xs k = Some v" for xs :: "(string \<times> 'a option list) list"
      and k v
    using that
  proof (induction xs)
    case Nil
    then show ?case by simp
  next
    case (Cons p xs)
    obtain l c where p: "p = (l, c)" by (cases p)
    show ?case
    proof (cases "l = k")
      case True
      with Cons.prems p have "k \<notin> fst ` set xs" and "v = c" by auto
      with True p show ?thesis by (simp add: filter_label_absent)
    next
      case False
      with Cons p show ?thesis by simp
    qed
  qed
  with assms show ?thesis by (simp add: getitem_column_def)
qed

lemma set_first_seen: "set (first_seen xs) = set xs"
  by (induction xs) auto

lemma distinct_first_seen: "distinct (first_seen xs)"
  by (induction xs) (auto simp: set_first_seen)

lemma filter_eq_single:
  assumes "distinct zs" and "k \<in> set zs"
  shows "filter (\<lambda>x. x = k) zs = [k]"
  using assms
proof (induction zs)
  case Nil
  then show ?case by simp
next
  case (Cons z zs)
  show ?case
  proof (cases "z = k")
    case True
    with Cons.prems have "k \<notin> set zs" by simp
    then have "filter (\<lambda>x. x = k) zs = []" by (auto simp: filter_empty_conv)
    with True show ?thesis by simp
  next
    case False
    with Cons show ?thesis by simp
  qed
qed

lemma filter_key_single:
  assumes "distinct zs" and "k \<in> set zs" and "inj_on f (set zs)"
  shows "filter (\<lambda>x. f k = f x) zs = [k]"
proof -
  have "filter (\<lambda>x. f k = f x) zs = filter (\<lambda>x. x = k) zs"
    using assms(2,3) by (intro filter_cong) (auto dest: inj_onD)
  then show ?thesis
    using assms(1,2) by (simp add: filter_eq_single)
qed

lemma sort_key_unique:
  assumes "distinct ps" and "distinct ys" and "set ps = set ys"
    and "sorted (map f ys)" and "inj_on f (set ys)"
  shows "sort_key f ps = ys"
proof (rule properties_for_sort_key)
  show "mset ys = mset ps"
    using assms(1-3) by (simp add: set_eq_iff_mset_eq_distinct [symmetric])
  show "sorted (map f ys)" by (rule assms(4))
  show "filter (\<lambda>x. f k = f x) ys = filter (\<lambda>x. f k = f x) ps" if "k \<in> set ys" for k
    using that assms by (simp add: filter_key_single)
qed

lemma value_counts_example:
  assumes "\<And>v. count_list (present column) v = example_frequencies v"
  shows "value_counts column = example_counts"
proof -
  define vs where "vs = present column"
  define g where "g = (\<lambda>v. (v, int (count_list vs v)))"
  define ps where "ps = map g (first_seen vs)"
  have freq: "count_list vs v = example_frequencies v" for v
    using assms by (simp add: vs_def)
  have "v \<in> set vs \<longleftrightarrow> v \<in> {''a'', ''b'', ''c'', ''d'', ''e''}" for v
    using count_list_0_iff [of vs v] freq [of v] by (auto split: if_splits)
  then have set_vs: "set vs = {''a'', ''b'', ''c'', ''d'', ''e''}"
    by blast
  have "inj_on g (set (first_seen vs))"
    by (auto simp: inj_on_def g_def)
  then have dist: "distinct ps"
    by (simp add: ps_def distinct_map distinct_first_seen)
  have "set ps = g ` set vs"
    by (simp add: ps_def set_first_seen)
  also have "\<dots> = set example_counts"
    by (simp add: set_vs g_def freq)
  finally have set_ps: "set ps = set example_counts" .
  have "sort_key (\<lambda>(v, n). - n) ps = example_counts"
    using dist _ set_ps by (rule sort_key_unique) (simp_all add: inj_on_def)
  then show ?thesis
    by (simp add: value_counts_def sort_values_descending_def vs_def ps_def g_def Let_def)
qed

lemma sort_example_counts: "sort_values_descending example_counts = example_counts"
  by (simp add: sort_values_descending_def)

lemma example_labels:
  "percent_label 50 115 = ''43%''" "percent_label 30 115 = ''26%''"
  "percent_label 20 115 = ''17%''" "percent_label 15 115 = ''13%''"
  by code_simp+

lemma example_percents:
  "percent 50 115 = 1000 / 23" "percent 30 115 = 600 / 23"
  "percent 20 115 = 400 / 23" "percent 15 115 = 300 / 23"
  by (simp_all add: percent_def)

lemma example_rounded:
  "round_half_even (1000 / 23) = 43" "round_half_even (600 / 23) = 26"
  "round_half_even (400 / 23) = 17" "round_half_even (300 / 23) = 13"
  by code_simp+

lemma present_append: "present (xs @ ys) = present xs @ present ys"
  by (simp add: present_def)

lemma present_replicate: "present (replicate n (Some x)) = replicate n x"
  by (induction n) (simp_all add: present_def)

lemma present_Cons:
  "present (None # xs) = present xs" "present (Some x # xs) = x # present xs"
  "present [] = []"
  by (simp_all add: present_def)

lemma count_list_replicate: "count_list (replicate n x) y = (if x = y then n else 0)"
  by (induction n) auto

lemma survey_frequencies: "count_list (present survey) v = example_frequencies v"
  by (simp add: survey_def present_append present_replicate present_Cons count_list_replicate)

section \<open>The claims about the chart renderer\<close>

text \<open>
  C6. For every column whose values have the frequencies a: 50, b: 30, c: 20, d: 10, e: 5,
  \<open>plot_bar\<close> and \<open>plot_horizontal_bar\<close> with \<open>limit = 3\<close> draw the categories a, b, c in
  that order and after them one category \<open>Other\<close> of count 15. The displayed total is
  115; the percentage of each bar is its count divided by 115, the four add up to 100,
  and the annotations show them rounded: 43%, 26%, 17%, 13%.
\<close>

theorem top_three_and_other:
  assumes "\<And>v. count_list (present column) v = example_frequencies v"
  shows "plot_bar column title 3 =
           Inr \<lparr>bars = [(''a'', 50), (''b'', 30), (''c'', 20), (''Other'', 15)],
                palette = [3, 2, 1, 0],
                texts = [(0, 101 / 2, ''43%''), (1, 61 / 2, ''26%''), (2, 41 / 2, ''17%''),
                         (3, 31 / 2, ''13%'')],
                chart_title = title, axis_limit = 90\<rparr>
       \<and> plot_horizontal_bar column title 3 =
           Inr \<lparr>bars = [(''a'', 50), (''b'', 30), (''c'', 20), (''Other'', 15)],
                palette = [3, 2, 1, 0],
                texts = [(101 / 2, 0, ''43%''), (61 / 2, 1, ''26%''), (41 / 2, 2, ''17%''),
                         (31 / 2, 3, ''13%'')],
                chart_title = title, axis_limit = 90\<rparr>
       \<and> sum_list (map snd [(''a'', 50), (''b'', 30), (''c'', 20), (''Other'', 15 :: int)]) = 115
       \<and> sum_list (map (\<lambda>(c, n). percent n 115)
            [(''a'', 50), (''b'', 30), (''c'', 20), (''Other'', 15)]) = 100
       \<and> map (\<lambda>(c, n). round_half_even (percent n 115))
            [(''a'', 50), (''b'', 30), (''c'', 20), (''Other'', 15)] = [43, 26, 17, 13]"
proof -
  have vc: "value_counts column = example_counts"
    using assms by (rule value_counts_example)
  have 1: "plot_bar column title 3 =
           Inr \<lparr>bars = [(''a'', 50), (''b'', 30), (''c'', 20), (''Other'', 15)],
                palette = [3, 2, 1, 0],
                texts = [(0, 101 / 2, ''43%''), (1, 61 / 2, ''26%''), (2, 41 / 2, ''17%''),
                         (3, 31 / 2, ''13%'')],
                chart_title = title, axis_limit = 90\<rparr>"
    by (simp add: plot_bar_def vc sort_example_counts head_def slice_from_def py_max_def
        and_then_def example_labels upt_rec)
  have 2: "plot_horizontal_bar column title 3 =
           Inr \<lparr>bars = [(''a'', 50), (''b'', 30), (''c'', 20), (''Other'', 15)],
                palette = [3, 2, 1, 0],
                texts = [(101 / 2, 0, ''43%''), (61 / 2, 1, ''26%''), (41 / 2, 2, ''17%''),
                         (31 / 2, 3, ''13%'')],
                chart_title = title, axis_limit = 90\<rparr>"
    by (simp add: plot_horizontal_bar_def vc sort_example_counts head_def slice_from_def
        py_max_def and_then_def example_labels upt_rec)
  have 3: "sum_list (map (\<lambda>(c, n). percent n 115)
            [(''a'', 50), (''b'', 30), (''c'', 20), (''Other'', 15)]) = 100"
    by (simp add: example_percents)
  have 4: "map (\<lambda>(c, n). round_half_even (percent n 115))
            [(''a'', 50), (''b'', 30), (''c'', 20), (''Other'', 15)] = [43, 26, 17, 13]"
    by (simp add: example_percents example_rounded)
  from 1 2 3 4 show ?thesis by simp
qed

theorem top_three_and_other_witness:
  "bars (projr (plot_bar survey ''Top'' 3)) =
     [(''a'', 50), (''b'', 30), (''c'', 20), (''Other'', 15)]
   \<and> bars (projr (plot_horizontal_bar survey ''Top'' 3)) =
     [(''a'', 50), (''b'', 30), (''c'', 20), (''Other'', 15)]
   \<and> map (\<lambda>(x, y, l). l) (texts (projr (plot_bar survey ''Top'' 3))) =
     [''43%'', ''26%'', ''17%'', ''13%'']"
  using top_three_and_other [of survey "''Top''", OF survey_frequencies] by simp

text \<open>
  C7. For every table of 10 rows whose column labels are distinct and every column of it
  with exactly 3 missing entries, \<open>plot_donut_chart\<close> draws the slices \<open>[3, 7]\<close>: the count
  of missing entries first, under the first label, and that first slice alone is pulled
  out of the ring (\<open>explode\<close> is \<open>0.1\<close> for it and \<open>0\<close> for the other).
\<close>

theorem donut_slices:
  assumes "distinct (map fst (series df))"
    and "map_of (series df) column = Some col"
    and "length col = nrows df"
    and "nrows df = 10"
    and "length (filter (\<lambda>c. c = None) col) = 3"
  shows "plot_donut_chart df column =
           Inr \<lparr>sizes = [3, 7], explode = (1 / 10, 0),
                labels = [[1055, 1088, 1086, 1087, 1091, 1089, 1082, 1080],
                          [1047, 1072, 1087, 1086, 1083, 1085, 1077, 1085, 1085, 1099, 1077, 32,
                           1079, 1085, 1072, 1095, 1077, 1085, 1080, 1103]],
                colors = [''#ff9999'', ''#66b3ff''], donut_title = column\<rparr>"
  using assms
  by (simp add: plot_donut_chart_def getitem_column_single sum_bools_isna ax_pie_def and_then_def)

theorem donut_slices_witness:
  "sizes (projr (plot_donut_chart ratings ''score'')) = [3, 7]
   \<and> explode (projr (plot_donut_chart ratings ''score'')) = (1 / 10, 0)"
proof -
  have h1: "map_of (series ratings) ''score'' =
      Some [Some 1, None, Some 2, None, None, Some 1, Some 1, Some 1, Some 1, Some 1]"
    by (simp add: ratings_def)
  have h0: "distinct (map fst (series ratings))"
    by (simp add: ratings_def)
  have h2: "nrows ratings = 10"
    by (simp add: ratings_def)
  have hl: "length [Some (1::nat), None, Some 2, None, None, Some 1, Some 1, Some 1, Some 1,
      Some 1] = nrows ratings"
    by (simp add: ratings_def)
  have h3: "length (filter (\<lambda>c. c = None)
      [Some (1::nat), None, Some 2, None, None, Some 1, Some 1, Some 1, Some 1, Some 1]) = 3"
    by simp
  show ?thesis
    using donut_slices [OF h0 h1 hl h2 h3] by simp
qed


section \<open>The correlation heatmap: lemmas\<close>






section \<open>The claim about the correlation heatmap\<close>




end
